theory Spec2Isabelle
  imports
    Complex_Main
    "HOL-Library.Word"
    "HOL-Library.List_Lexorder"
    "HOL-Library.Product_Lexorder"
begin

section \<open>Strings of the client\<close>

text \<open>
  A JavaScript string is a sequence of 16-bit code units. \<open>js\<close> writes an ASCII literal
  as such a sequence.
\<close>

type_synonym js_string = "16 word list"

definition js :: "string \<Rightarrow> js_string" where
  "js s = map of_char s"

text \<open>
  \<open>String.prototype.trim\<close> strips the code units of ECMAScript's WhiteSpace and
  LineTerminator productions from both ends: TAB, LF, VT, FF, CR, SP, NBSP, the other
  space separators of Unicode (all in the basic plane), LS, PS and the byte order mark.
\<close>

definition is_js_whitespace :: "16 word \<Rightarrow> bool" where
  "is_js_whitespace c \<longleftrightarrow>
     c = 0x0009 \<or> c = 0x000A \<or> c = 0x000B \<or> c = 0x000C \<or> c = 0x000D \<or> c = 0x0020 \<or>
     c = 0x00A0 \<or> c = 0x1680 \<or> (0x2000 \<le> c \<and> c \<le> 0x200A) \<or> c = 0x2028 \<or>
     c = 0x2029 \<or> c = 0x202F \<or> c = 0x205F \<or> c = 0x3000 \<or> c = 0xFEFF"

definition trim :: "js_string \<Rightarrow> js_string" where
  "trim s = rev (dropWhile is_js_whitespace (rev (dropWhile is_js_whitespace s)))"

section \<open>The store as the client sees it\<close>

text \<open>
  The columns of \<open>bible_books_and_verses\<close> that the client selects, by type, and the
  row of a \<open>select("book_name, book_chapter, verse_number, verse_text")\<close>.
\<close>

datatype text_column = Book_name | Verse_text

datatype int_column = Book_chapter | Verse_number

datatype column = Text_col text_column | Int_col int_column

record api_row =
  book_name :: js_string
  book_chapter :: int
  verse_number :: int
  verse_text :: js_string

text \<open>
  A query is the chain of calls made on \<open>supabase.from("bible_books_and_verses").select(...)\<close>,
  in the order the source writes them.
\<close>

datatype modifier =
    Eq_text text_column js_string
  | Eq_int int_column int
  | Ilike text_column js_string
  | Limit nat
  | Order column

type_synonym query = "modifier list"

text \<open>
  What a \<open>catch\<close> clause can receive: an object for which \<open>instanceof Error\<close> holds,
  with its \<open>message\<close>, or any other thrown thing.
\<close>

datatype js_thrown = Error_instance js_string | Other_thrown

text \<open>
  Awaiting a query yields the pair \<open>{ data, error }\<close> (either may be null), or the
  promise rejects.
\<close>

datatype response = Response (data: "api_row list option") (supabaseError: "js_thrown option")

datatype awaited = Fulfilled response | Rejected js_thrown

type_synonym store = "query \<Rightarrow> awaited"

section \<open>The hook useBibleApi\<close>

text \<open>
  The interface \<open>Verse\<close>. A \<open>number\<close> is an integer throughout: chapter and verse
  numbers come from \<open>INTEGER\<close> columns and from the page's chapter selector.
\<close>

record Verse =
  book :: js_string
  "chapter" :: int
  verse :: int
  "text" :: js_string

record hook_state =
  verses :: "Verse list"
  loading :: bool
  error :: "js_string option"

definition transform :: "api_row \<Rightarrow> Verse" where
  "transform v = \<lparr>book = book_name v, chapter = book_chapter v,
     verse = verse_number v, text = verse_text v\<rparr>"

text \<open>
  The body of the \<open>try\<close> block up to the transformation: the awaited answer, \<open>throw\<close>
  when its error is set, and \<open>(data || []).map(...)\<close> otherwise. \<open>Inl\<close> is what reaches
  the \<open>catch\<close> block.
\<close>

definition transformedVerses :: "awaited \<Rightarrow> js_thrown + Verse list" where
  "transformedVerses a =
     (case a of
        Rejected e \<Rightarrow> Inl e
      | Fulfilled r \<Rightarrow>
          (case supabaseError r of
             Some e \<Rightarrow> Inl e
           | None \<Rightarrow> Inr (map transform (case data r of None \<Rightarrow> [] | Some rows \<Rightarrow> rows))))"

text \<open>\<open>err instanceof Error ? err.message : fallback\<close>\<close>

definition error_message :: "js_string \<Rightarrow> js_thrown \<Rightarrow> js_string" where
  "error_message fallback err = (case err of Error_instance m \<Rightarrow> m | Other_thrown \<Rightarrow> fallback)"

definition fetchChapter_query :: "js_string \<Rightarrow> int \<Rightarrow> query" where
  "fetchChapter_query b c = [Eq_text Book_name b, Eq_int Book_chapter c, Order (Int_col Verse_number)]"

definition searchVerses_query :: "js_string \<Rightarrow> query" where
  "searchVerses_query q =
     [Ilike Verse_text (js ''%'' @ q @ js ''%''), Limit 100,
      Order (Text_col Book_name), Order (Int_col Book_chapter), Order (Int_col Verse_number)]"

text \<open>
  Each operation of the hook takes the store and the hook's state and returns the state
  after the call together with the queries it sent to the store, in order.
\<close>

definition fetchChapter :: "store \<Rightarrow> hook_state \<Rightarrow> js_string \<Rightarrow> int \<Rightarrow> hook_state \<times> query list" where
  "fetchChapter supabase s b c =
     (let s1 = s\<lparr>loading := True\<rparr>;
          s2 = s1\<lparr>error := None\<rparr>;
          q = fetchChapter_query b c;
          s3 = (case transformedVerses (supabase q) of
                  Inr vs \<Rightarrow> s2\<lparr>verses := vs\<rparr>
                | Inl err \<Rightarrow> s2\<lparr>error := Some (error_message (js ''Failed to fetch chapter'') err)\<rparr>)
      in (s3\<lparr>loading := False\<rparr>, [q]))"

definition searchVerses :: "store \<Rightarrow> hook_state \<Rightarrow> js_string \<Rightarrow> hook_state \<times> query list" where
  "searchVerses supabase s qs =
     (if trim qs = [] then (s\<lparr>verses := []\<rparr>, [])
      else
        let s1 = s\<lparr>loading := True\<rparr>;
            s2 = s1\<lparr>error := None\<rparr>;
            q = searchVerses_query qs;
            s3 = (case transformedVerses (supabase q) of
                    Inr vs \<Rightarrow> s2\<lparr>verses := vs\<rparr>
                  | Inl err \<Rightarrow> s2\<lparr>error := Some (error_message (js ''Failed to search verses'') err)\<rparr>)
        in (s3\<lparr>loading := False\<rparr>, [q]))"

section \<open>The search of the Topics tab\<close>

definition handleTopicsSearch_query :: "js_string \<Rightarrow> query" where
  "handleTopicsSearch_query q = [Ilike Verse_text (js ''%'' @ q @ js ''%''), Limit 50]"

text \<open>
  \<open>handleTopicsSearch\<close> returns the verses; its \<open>catch\<close> block logs and returns \<open>[]\<close>.
\<close>

definition handleTopicsSearch :: "store \<Rightarrow> js_string \<Rightarrow> Verse list \<times> query list" where
  "handleTopicsSearch supabase qs =
     (let q = handleTopicsSearch_query qs
      in (case transformedVerses (supabase q) of Inr vs \<Rightarrow> vs | Inl err \<Rightarrow> [], [q]))"

section \<open>The table behind the store\<close>

text \<open>
  A row of \<open>bible_books_and_verses\<close> is the selected columns and the \<open>verse_text_tsv\<close>
  column; \<open>id\<close> and \<open>created_at\<close> are read by nothing and left out. The type of a
  \<open>TSVECTOR\<close> is the text-search engine's, a parameter here.
\<close>

record 'tsv verse_row = api_row +
  verse_text_tsv :: 'tsv

definition natural_key :: "'a api_row_scheme \<Rightarrow> js_string \<times> int \<times> int" where
  "natural_key r = (book_name r, book_chapter r, verse_number r)"

text \<open>\<open>UNIQUE(book_name, book_chapter, verse_number)\<close>\<close>

definition unique_verses :: "'a api_row_scheme list \<Rightarrow> bool" where
  "unique_verses tbl \<longleftrightarrow> distinct (map natural_key tbl)"

fun text_of :: "text_column \<Rightarrow> 'a api_row_scheme \<Rightarrow> js_string" where
  "text_of Book_name r = book_name r"
| "text_of Verse_text r = verse_text r"

fun int_of :: "int_column \<Rightarrow> 'a api_row_scheme \<Rightarrow> int" where
  "int_of Book_chapter r = book_chapter r"
| "int_of Verse_number r = verse_number r"

text \<open>
  A row passes the filters of a query when it passes each; \<open>ILIKE\<close> is the engine's
  pattern match (pattern first), a parameter.
\<close>

fun passes :: "(js_string \<Rightarrow> js_string \<Rightarrow> bool) \<Rightarrow> modifier \<Rightarrow> 'a api_row_scheme \<Rightarrow> bool" where
  "passes ilike (Eq_text c t) r = (text_of c r = t)"
| "passes ilike (Eq_int c n) r = (int_of c r = n)"
| "passes ilike (Ilike c p) r = ilike p (text_of c r)"
| "passes ilike (Limit n) r = True"
| "passes ilike (Order c) r = True"

text \<open>
  \<open>ORDER BY c1, c2, ...\<close>: the rows sorted by the last column first, each earlier
  column by a stable sort over that. The order on text is the code units' lexicographic
  one.
\<close>

fun sort_by_column :: "column \<Rightarrow> 'a api_row_scheme list \<Rightarrow> 'a api_row_scheme list" where
  "sort_by_column (Text_col c) rows = sort_key (text_of c) rows"
| "sort_by_column (Int_col c) rows = sort_key (int_of c) rows"

fun order_by :: "modifier list \<Rightarrow> 'a api_row_scheme list \<Rightarrow> 'a api_row_scheme list" where
  "order_by [] rows = rows"
| "order_by (Order c # ms) rows = sort_by_column c (order_by ms rows)"
| "order_by (m # ms) rows = order_by ms rows"

text \<open>\<open>LIMIT n\<close>; of several \<open>limit\<close> calls the last one counts.\<close>

fun limit_of :: "modifier list \<Rightarrow> nat option" where
  "limit_of [] = None"
| "limit_of (Limit n # ms) = (case limit_of ms of None \<Rightarrow> Some n | Some k \<Rightarrow> Some k)"
| "limit_of (m # ms) = limit_of ms"

definition limit_to :: "modifier list \<Rightarrow> 'a list \<Rightarrow> 'a list" where
  "limit_to q rows = (case limit_of q of None \<Rightarrow> rows | Some n \<Rightarrow> take n rows)"

definition exec_query ::
  "(js_string \<Rightarrow> js_string \<Rightarrow> bool) \<Rightarrow> 'tsv verse_row list \<Rightarrow> query \<Rightarrow> api_row list" where
  "exec_query ilike tbl q =
     map api_row.truncate
       (limit_to q (order_by q (filter (\<lambda>r. list_all (\<lambda>m. passes ilike m r) q) tbl)))"

text \<open>
  The columns \<open>book_chapter\<close> and \<open>verse_number\<close> are \<open>INTEGER\<close>: a number compared
  with one has to be in the range of 32-bit integers, or the database refuses the query.
\<close>

definition int4 :: "int \<Rightarrow> bool" where
  "int4 n \<longleftrightarrow> - 2147483648 \<le> n \<and> n \<le> 2147483647"

fun in_range :: "modifier \<Rightarrow> bool" where
  "in_range (Eq_int c n) = int4 n"
| "in_range m = True"

text \<open>
  A store that is reached answers with the rows and no error, unless the query
  compares an \<open>INTEGER\<close> column with a number out of range: then it answers with an error
  and no data. What object the client library makes of that error is its second
  parameter.
\<close>

definition pg_store ::
  "(js_string \<Rightarrow> js_string \<Rightarrow> bool) \<Rightarrow> js_thrown \<Rightarrow> 'tsv verse_row list \<Rightarrow> store" where
  "pg_store ilike out_of_range tbl q =
     (if list_all in_range q then Fulfilled (Response (Some (exec_query ilike tbl q)) None)
      else Fulfilled (Response None (Some out_of_range)))"

text \<open>
  A store that cannot be reached: the answer carries the fault and no data, or the
  promise rejects with it.
\<close>

definition faulty_store :: "js_thrown \<Rightarrow> store" where
  "faulty_store e q = Fulfilled (Response None (Some e))"

definition rejecting_store :: "js_thrown \<Rightarrow> store" where
  "rejecting_store e q = Rejected e"

section \<open>The schema: full-text search\<close>

text \<open>
  The text-search engine of the database, as far as the schema calls it, always with
  the configuration \<open>'english'\<close>: \<open>to_tsvector\<close>, \<open>websearch_to_tsquery\<close>, the match
  operator \<open>@@\<close> and \<open>ts_rank\<close>. The engine is not part of the repository; it is a
  parameter of everything below.
\<close>

record ('tsv, 'tsq) text_search =
  to_tsvector :: "js_string \<Rightarrow> 'tsv"
  websearch_to_tsquery :: "js_string \<Rightarrow> 'tsq"
  ts_match :: "'tsv \<Rightarrow> 'tsq \<Rightarrow> bool"
  ts_rank :: "'tsv \<Rightarrow> 'tsq \<Rightarrow> real"

datatype pg_error = Limit_must_not_be_negative | Unique_violation

text \<open>A row of \<open>RETURNS TABLE (book_name, book_chapter, verse_number, verse_text, rank)\<close>.\<close>

record search_result = api_row +
  rank :: real

text \<open>
  \<open>ORDER BY rank DESC, v.book_name, v.book_chapter, v.verse_number\<close> as a sort key
  under the lexicographic order of tuples: descending rank is ascending negated rank.
\<close>

definition order_by_key :: "search_result \<Rightarrow> real \<times> js_string \<times> int \<times> int" where
  "order_by_key r = (- rank r, book_name r, book_chapter r, verse_number r)"

text \<open>
  \<open>search_verses(search_query, max_results)\<close>, on arguments that are not null.
  PostgreSQL refuses a negative \<open>LIMIT\<close>. The sort is an insertion sort; which sort it
  is shows only on rows with equal keys, and the table's uniqueness constraint leaves
  none. Book names compare as text does here, by code units.
\<close>

definition search_verses ::
  "('tsv, 'tsq) text_search \<Rightarrow> 'tsv verse_row list \<Rightarrow> js_string \<Rightarrow> int \<Rightarrow> pg_error + search_result list" where
  "search_verses eng tbl search_query max_results =
     (if max_results < 0 then Inl Limit_must_not_be_negative
      else Inr (take (nat max_results)
        (sort_key order_by_key
          (map (\<lambda>v. \<lparr>book_name = book_name v, book_chapter = book_chapter v,
                      verse_number = verse_number v, verse_text = verse_text v,
                      rank = ts_rank eng (verse_text_tsv v) (websearch_to_tsquery eng search_query)\<rparr>)
            (filter (\<lambda>v. ts_match eng (verse_text_tsv v) (websearch_to_tsquery eng search_query))
               tbl)))))"

text \<open>\<open>max_results INT DEFAULT 100\<close>\<close>

definition search_verses_default ::
  "('tsv, 'tsq) text_search \<Rightarrow> 'tsv verse_row list \<Rightarrow> js_string \<Rightarrow> pg_error + search_result list" where
  "search_verses_default eng tbl search_query = search_verses eng tbl search_query 100"

text \<open>
  What the function's \<open>ORDER BY\<close> says of a result: descending rank; among equal ranks
  ascending book name, then chapter, then verse number.
\<close>

definition ordered_by_rank_then_name :: "search_result list \<Rightarrow> bool" where
  "ordered_by_rank_then_name rs \<longleftrightarrow>
     sorted_wrt (\<lambda>a b. rank b < rank a \<or> (rank a = rank b \<and>
        (book_name a < book_name b \<or> (book_name a = book_name b \<and>
          (book_chapter a < book_chapter b \<or> (book_chapter a = book_chapter b \<and>
             verse_number a \<le> verse_number b)))))) rs"

text \<open>
  The table \<open>bible_books\<close>: \<open>seq_number\<close> is the canonical position of a book.
  Its \<open>book_name\<close> column carries a prime here, the name being taken by the verses' column.
\<close>

datatype testament = Old_Testament | New_Testament | Apocrypha

record bible_book =
  book_id :: int
  book_name' :: js_string
  testament :: testament
  seq_number :: int
  chapter_count :: int

text \<open>
  The canonical position of a book by name (\<open>book_name\<close> is \<open>UNIQUE\<close> in
  \<open>bible_books\<close>; a name the table lacks gets 0).
\<close>

definition seq_number_of :: "bible_book list \<Rightarrow> js_string \<Rightarrow> int" where
  "seq_number_of books name =
     (case find (\<lambda>b. book_name' b = name) books of Some b \<Rightarrow> seq_number b | None \<Rightarrow> 0)"

text \<open>
  The order as the specification words it: descending rank; among equal ranks the
  canonical book order, then chapter, then verse number, ascending.
\<close>

definition ordered_by_rank_then_canonical :: "bible_book list \<Rightarrow> search_result list \<Rightarrow> bool" where
  "ordered_by_rank_then_canonical books rs \<longleftrightarrow>
     sorted_wrt (\<lambda>a b. rank b < rank a \<or> (rank a = rank b \<and>
        (seq_number_of books (book_name a) < seq_number_of books (book_name b) \<or>
         (seq_number_of books (book_name a) = seq_number_of books (book_name b) \<and>
          (book_chapter a < book_chapter b \<or> (book_chapter a = book_chapter b \<and>
             verse_number a \<le> verse_number b)))))) rs"

section \<open>The schema: the trigger on verses\<close>

text \<open>
  \<open>update_verse_text_tsv\<close>, the trigger function: it replaces the \<open>verse_text_tsv\<close> of
  the row about to be written.
\<close>

definition update_verse_text_tsv :: "('tsv, 'tsq) text_search \<Rightarrow> 'tsv verse_row \<Rightarrow> 'tsv verse_row" where
  "update_verse_text_tsv eng new = new\<lparr>verse_text_tsv := to_tsvector eng (verse_text new)\<rparr>"

text \<open>
  The statements that write the table. \<open>Insert\<close> carries the row as the statement gives
  it (with whatever it gives for \<open>verse_text_tsv\<close>), \<open>Update\<close> a \<open>WHERE\<close> condition and
  the \<open>SET\<close> clause as a function of the old row, \<open>Delete\<close> a \<open>WHERE\<close> condition.
\<close>

datatype 'tsv statement =
    Insert "'tsv verse_row"
  | Update "'tsv verse_row \<Rightarrow> bool" "'tsv verse_row \<Rightarrow> 'tsv verse_row"
  | Delete "'tsv verse_row \<Rightarrow> bool"

text \<open>
  \<open>tsvector_update_trigger\<close> runs \<open>BEFORE INSERT OR UPDATE ... FOR EACH ROW\<close>: the row
  that is stored is the trigger function's result. A statement that would break
  \<open>UNIQUE(book_name, book_chapter, verse_number)\<close> fails and writes nothing.
\<close>

fun exec_statement ::
  "('tsv, 'tsq) text_search \<Rightarrow> 'tsv verse_row list \<Rightarrow> 'tsv statement \<Rightarrow> pg_error + 'tsv verse_row list" where
  "exec_statement eng tbl (Insert new) =
     (let tbl' = tbl @ [update_verse_text_tsv eng new]
      in if unique_verses tbl' then Inr tbl' else Inl Unique_violation)"
| "exec_statement eng tbl (Update cond upd) =
     (let tbl' = map (\<lambda>old. if cond old then update_verse_text_tsv eng (upd old) else old) tbl
      in if unique_verses tbl' then Inr tbl' else Inl Unique_violation)"
| "exec_statement eng tbl (Delete cond) = Inr (filter (\<lambda>old. \<not> cond old) tbl)"

text \<open>
  A history of the table: the schema script creates it empty (it drops any earlier
  one) and installs the trigger before any row exists; then statements run one after
  another, a failed one leaving the table as it was.
\<close>

fun run_statements ::
  "('tsv, 'tsq) text_search \<Rightarrow> 'tsv verse_row list \<Rightarrow> 'tsv statement list \<Rightarrow> 'tsv verse_row list" where
  "run_statements eng tbl [] = tbl"
| "run_statements eng tbl (st # sts) =
     (case exec_statement eng tbl st of
        Inl err \<Rightarrow> run_statements eng tbl sts
      | Inr tbl' \<Rightarrow> run_statements eng tbl' sts)"

text \<open>The index entry of every row is the engine's vector of the row's text.\<close>

definition index_current :: "('tsv, 'tsq) text_search \<Rightarrow> 'tsv verse_row list \<Rightarrow> bool" where
  "index_current eng tbl \<longleftrightarrow> list_all (\<lambda>r. verse_text_tsv r = to_tsvector eng (verse_text r)) tbl"

section \<open>The page: favorites\<close>

text \<open>
  \<open>Number.prototype.toString\<close> on an integer: decimal digits, with a minus sign for a
  negative one. (Chapter and verse numbers come from \<open>INTEGER\<close> columns.)
\<close>

fun digits :: "nat \<Rightarrow> js_string" where
  "digits n = (if n < 10 then [48 + of_nat n] else digits (n div 10) @ [48 + of_nat (n mod 10)])"

definition toString :: "int \<Rightarrow> js_string" where
  "toString i = (if i < 0 then js ''-'' @ digits (nat (- i)) else digits (nat i))"

text \<open>The template literal \<open>`${v.book}_${v.chapter}_${v.verse}`\<close>.\<close>

definition verse_key :: "Verse \<Rightarrow> js_string" where
  "verse_key v = book v @ js ''_'' @ toString (chapter v) @ js ''_'' @ toString (verse v)"

text \<open>
  A JavaScript \<open>Set\<close> of strings is its elements in insertion order, without
  repetition: \<open>has\<close>, \<open>add\<close> (at the end, unless present) and \<open>delete\<close>.
\<close>

type_synonym js_set = "js_string list"

definition has :: "js_set \<Rightarrow> js_string \<Rightarrow> bool" where
  "has S k \<longleftrightarrow> k \<in> set S"

definition add :: "js_set \<Rightarrow> js_string \<Rightarrow> js_set" where
  "add S k = (if has S k then S else S @ [k])"

definition delete :: "js_set \<Rightarrow> js_string \<Rightarrow> js_set" where
  "delete S k = removeAll k S"

text \<open>\<open>Array.prototype.findIndex\<close> (\<open>-1\<close> when nothing matches) and \<open>splice(index, 1)\<close>.\<close>

fun findIndex :: "('a \<Rightarrow> bool) \<Rightarrow> 'a list \<Rightarrow> int" where
  "findIndex P [] = - 1"
| "findIndex P (x # xs) =
     (if P x then 0 else (let i = findIndex P xs in if i = - 1 then - 1 else i + 1))"

definition splice1 :: "int \<Rightarrow> 'a list \<Rightarrow> 'a list" where
  "splice1 i xs = take (nat i) xs @ drop (nat i + 1) xs"

text \<open>
  The data a topic is created from (\<open>Omit<Topic, "id" | "createdAt">\<close>) and the
  interface \<open>Topic\<close>. The field \<open>verses\<close> carries a prime, the name being the hook's;
  \<open>createdAt\<close> is the time in milliseconds.
\<close>

record topic_data =
  title :: js_string
  description :: js_string
  verses' :: "Verse list"

record Topic = topic_data +
  id :: js_string
  createdAt :: int

text \<open>
  The state of the page that the handlers below read and set. A handler is a function
  of the state it is run in; run one after another, each sees what the one before set.
\<close>

record home_state =
  favorites :: js_set
  favoriteVerses :: "Verse list"
  topics :: "Topic list"

definition handleToggleFavorite :: "home_state \<Rightarrow> Verse \<Rightarrow> home_state" where
  "handleToggleFavorite s v =
     (let key = verse_key v;
          newFavorites = favorites s;
          newFavoriteVerses = favoriteVerses s
      in if has newFavorites key then
           (let index = findIndex (\<lambda>w. verse_key w = key) newFavoriteVerses
            in s\<lparr>favorites := delete newFavorites key,
                 favoriteVerses := (if index > - 1 then splice1 index newFavoriteVerses
                                    else newFavoriteVerses)\<rparr>)
         else s\<lparr>favorites := add newFavorites key,
                favoriteVerses := newFavoriteVerses @ [v]\<rparr>)"

text \<open>
  Every render makes the handler anew, and the handler reads \<open>favorites\<close> and
  \<open>favoriteVerses\<close> of the render that made it; what it passes to \<open>setFavorites\<close> and
  \<open>setFavoriteVerses\<close> are the two values it has computed from them. So a call, in a
  page whose state is \<open>cur\<close>, of the handler that the render of state \<open>r\<close> made leaves
  the page with those two values. A call of the handler of the state the page is in,
  \<open>handleToggleFavorite_from s s v\<close>, is \<open>handleToggleFavorite s v\<close>.
\<close>

definition handleToggleFavorite_from :: "home_state \<Rightarrow> home_state \<Rightarrow> Verse \<Rightarrow> home_state" where
  "handleToggleFavorite_from r cur v =
     cur\<lparr>favorites := favorites (handleToggleFavorite r v),
         favoriteVerses := favoriteVerses (handleToggleFavorite r v)\<rparr>"

text \<open>
  \<open>findVerseByKey\<close> looks in the verses on display first, then in the favorite verses.
\<close>

definition findVerseByKey :: "Verse list \<Rightarrow> home_state \<Rightarrow> js_string \<Rightarrow> Verse option" where
  "findVerseByKey vs s key =
     (case find (\<lambda>v. verse_key v = key) vs of
        Some foundVerse \<Rightarrow> Some foundVerse
      | None \<Rightarrow> find (\<lambda>v. verse_key v = key) (favoriteVerses s))"

text \<open>
  The effect that runs when \<open>favorites\<close> has changed: it rebuilds \<open>favoriteVerses\<close> from
  the keys of the set, in the set's order, dropping a key that no verse is found for.
  Its first argument is the hook's \<open>verses\<close> at that render.
\<close>

definition favorites_effect :: "Verse list \<Rightarrow> home_state \<Rightarrow> home_state" where
  "favorites_effect vs s = s\<lparr>favoriteVerses := List.map_filter (findVerseByKey vs s) (favorites s)\<rparr>"

text \<open>
  The two representations agree: the keys of \<open>favoriteVerses\<close> are those of the set,
  each once.
\<close>

definition favorites_consistent :: "home_state \<Rightarrow> bool" where
  "favorites_consistent s \<longleftrightarrow>
     distinct (favorites s) \<and>
     distinct (map verse_key (favoriteVerses s)) \<and>
     set (map verse_key (favoriteVerses s)) = set (favorites s)"

section \<open>The page: topics\<close>

text \<open>
  \<open>handleCreateTopic\<close>: the topic is the data given, with \<open>Date.now()\<close> as its id and
  creation time.
\<close>

definition handleCreateTopic :: "int \<Rightarrow> home_state \<Rightarrow> topic_data \<Rightarrow> home_state" where
  "handleCreateTopic now s topicData =
     (let newTopic = topic_data.extend topicData (Topic.fields (toString now) now)
      in s\<lparr>topics := topics s @ [newTopic]\<rparr>)"

definition handleDeleteTopic :: "home_state \<Rightarrow> js_string \<Rightarrow> home_state" where
  "handleDeleteTopic s topicId = s\<lparr>topics := filter (\<lambda>topic. id topic \<noteq> topicId) (topics s)\<rparr>"

text \<open>The comparison both topic handlers make: book, chapter and verse number equal.\<close>

definition same_verse :: "Verse \<Rightarrow> Verse \<Rightarrow> bool" where
  "same_verse u v \<longleftrightarrow> book v = book u \<and> chapter v = chapter u \<and> verse v = verse u"

definition handleAddVerseToTopic :: "home_state \<Rightarrow> js_string \<Rightarrow> Verse \<Rightarrow> home_state" where
  "handleAddVerseToTopic s topicId v =
     s\<lparr>topics :=
         map (\<lambda>topic.
                if id topic = topicId then
                  (let verseExists = list_ex (same_verse v) (verses' topic)
                   in if \<not> verseExists then topic\<lparr>verses' := verses' topic @ [v]\<rparr> else topic)
                else topic)
           (topics s)\<rparr>"

definition handleRemoveVerseFromTopic :: "home_state \<Rightarrow> js_string \<Rightarrow> Verse \<Rightarrow> home_state" where
  "handleRemoveVerseFromTopic s topicId v =
     s\<lparr>topics :=
         map (\<lambda>topic.
                if id topic = topicId then
                  topic\<lparr>verses' := filter (\<lambda>w. \<not> same_verse v w) (verses' topic)\<rparr>
                else topic)
           (topics s)\<rparr>"

definition composite_key :: "Verse \<Rightarrow> js_string \<times> int \<times> int" where
  "composite_key v = (book v, chapter v, verse v)"

text \<open>No two verses of the topic have the same book, chapter and verse number.\<close>

definition no_duplicate_verses :: "'a topic_data_scheme \<Rightarrow> bool" where
  "no_duplicate_verses topic \<longleftrightarrow> distinct (map composite_key (verses' topic))"

section \<open>A small corpus\<close>

text \<open>
  The state of the page when it mounts: \<open>useState(new Set())\<close>, \<open>useState([])\<close>,
  \<open>useState([])\<close>.
\<close>

definition HomePage_initial :: home_state where
  "HomePage_initial = \<lparr>favorites = [], favoriteVerses = [], topics = []\<rparr>"

text \<open>
  A text-search engine to run examples on. Vectors and queries are the text itself;
  a query matches a vector that has each of its code units, and the rank counts the
  vector's code units that the query has. Nothing but the examples depends on it.
\<close>

definition example_engine :: "(js_string, js_string) text_search" where
  "example_engine =
     \<lparr>to_tsvector = (\<lambda>t. t), websearch_to_tsquery = (\<lambda>q. q),
      ts_match = (\<lambda>v q. list_all (\<lambda>c. c \<in> set v) q),
      ts_rank = (\<lambda>v q. real (length (filter (\<lambda>c. c \<in> set q) v)))\<rparr>"

definition example_books :: "bible_book list" where
  "example_books =
     [\<lparr>book_id = 1, book_name' = js ''Genesis'', testament = Old_Testament,
       seq_number = 1, chapter_count = 50\<rparr>,
      \<lparr>book_id = 2, book_name' = js ''Exodus'', testament = Old_Testament,
       seq_number = 2, chapter_count = 40\<rparr>,
      \<lparr>book_id = 43, book_name' = js ''John'', testament = New_Testament,
       seq_number = 43, chapter_count = 21\<rparr>]"

text \<open>
  Four inserts (the statements give stale or empty index entries), a second insert of
  Genesis 1:3 that the uniqueness constraint refuses, and an update of a text.
\<close>

definition example_statements :: "js_string statement list" where
  "example_statements =
     [Insert \<lparr>book_name = js ''Genesis'', book_chapter = 1, verse_number = 3,
              verse_text = js ''And God said'', verse_text_tsv = []\<rparr>,
      Insert \<lparr>book_name = js ''Exodus'', book_chapter = 20, verse_number = 1,
              verse_text = js ''And God said'', verse_text_tsv = js ''stale''\<rparr>,
      Insert \<lparr>book_name = js ''John'', book_chapter = 3, verse_number = 16,
              verse_text = js ''God loved'', verse_text_tsv = []\<rparr>,
      Insert \<lparr>book_name = js ''Genesis'', book_chapter = 1, verse_number = 1,
              verse_text = js ''In the beginning'', verse_text_tsv = []\<rparr>,
      Insert \<lparr>book_name = js ''Genesis'', book_chapter = 1, verse_number = 3,
              verse_text = js ''again'', verse_text_tsv = []\<rparr>,
      Update (\<lambda>old. book_name old = js ''John'')
             (\<lambda>old. old\<lparr>verse_text := js ''God so loved''\<rparr>)]"

definition example_verses :: "js_string verse_row list" where
  "example_verses =
     [\<lparr>book_name = js ''Genesis'', book_chapter = 1, verse_number = 3,
       verse_text = js ''And God said'', verse_text_tsv = js ''And God said''\<rparr>,
      \<lparr>book_name = js ''Exodus'', book_chapter = 20, verse_number = 1,
       verse_text = js ''And God said'', verse_text_tsv = js ''And God said''\<rparr>,
      \<lparr>book_name = js ''John'', book_chapter = 3, verse_number = 16,
       verse_text = js ''God so loved'', verse_text_tsv = js ''God so loved''\<rparr>,
      \<lparr>book_name = js ''Genesis'', book_chapter = 1, verse_number = 1,
       verse_text = js ''In the beginning'', verse_text_tsv = js ''In the beginning''\<rparr>]"

text \<open>An error object for a number out of range, as a client library may present it.\<close>

definition out_of_range_error :: js_thrown where
  "out_of_range_error = Error_instance (js ''value is out of range for type integer'')"

definition genesis_1_3 :: Verse where
  "genesis_1_3 = \<lparr>book = js ''Genesis'', chapter = 1, verse = 3, text = js ''And God said''\<rparr>"

definition john_3_16 :: Verse where
  "john_3_16 = \<lparr>book = js ''John'', chapter = 3, verse = 16, text = js ''God so loved''\<rparr>"

text \<open>A page with one favorite.\<close>

definition example_favorites :: home_state where
  "example_favorites =
     \<lparr>favorites = [js ''Genesis_1_3''], favoriteVerses = [genesis_1_3], topics = []\<rparr>"

text \<open>A page with one topic, created with one verse.\<close>

definition example_topics :: home_state where
  "example_topics =
     handleCreateTopic 1700000000000 HomePage_initial
       \<lparr>title = js ''Love'', description = js ''Verses on love'', verses' = [john_3_16]\<rparr>"

section \<open>Blank queries\<close>

lemma all_dropWhile: "(\<forall>x\<in>set (dropWhile P s). P x) \<longleftrightarrow> (\<forall>x\<in>set s. P x)"
  by (induction s) auto

lemma trim_empty_iff: "trim s = [] \<longleftrightarrow> list_all is_js_whitespace s"
  by (simp add: trim_def all_dropWhile list_all_iff)

text \<open>
  Claim C3, as amended. For every query that is empty or consists only of whitespace,
  \<open>searchVerses\<close> sends no query to the store; it sets the verses to the empty sequence
  and returns, leaving \<open>error\<close> and \<open>loading\<close> as they were. No error is signalled.
\<close>

theorem searchVerses_blank:
  assumes "list_all is_js_whitespace qs"
  shows "searchVerses supabase s qs = (s\<lparr>verses := []\<rparr>, [])"
  using assms by (simp add: searchVerses_def trim_empty_iff)

theorem searchVerses_blank_witness:
  "list_all is_js_whitespace [0x20, 0x09, 0x3000] \<and>
   searchVerses (faulty_store Other_thrown)
       \<lparr>verses = [john_3_16], loading = False, error = Some (js ''earlier'')\<rparr> [0x20, 0x09, 0x3000]
     = (\<lparr>verses = [], loading = False, error = Some (js ''earlier'')\<rparr>, [])"
proof -
  have h: "list_all is_js_whitespace [0x20, 0x09, 0x3000]"
    by (simp add: is_js_whitespace_def)
  show ?thesis
    using h searchVerses_blank [OF h, of "faulty_store Other_thrown"
        "\<lparr>verses = [john_3_16], loading = False, error = Some (js ''earlier'')\<rparr>"]
    by simp
qed

text \<open>
  Claim C3 as the specification states it fails: on a blank query the hook reports no
  error at all. Here the state before the call has no error and one verse; after it
  the verses are empty and \<open>error\<close> is still null, which is also what a search without
  matches leaves.
\<close>

theorem searchVerses_blank_no_error:
  "error (fst (searchVerses (pg_store (\<lambda>p t. True) out_of_range_error example_verses)
      \<lparr>verses = [john_3_16], loading = False, error = None\<rparr> (js '' ''))) = None \<and>
   verses (fst (searchVerses (pg_store (\<lambda>p t. True) out_of_range_error example_verses)
      \<lparr>verses = [john_3_16], loading = False, error = None\<rparr> (js '' ''))) = []"
  by (simp add: searchVerses_def trim_def js_def is_js_whitespace_def)

section \<open>Faults of the store\<close>

lemma transformedVerses_faulty [simp]: "transformedVerses (faulty_store e q) = Inl e"
  by (simp add: transformedVerses_def faulty_store_def)

lemma transformedVerses_rejecting [simp]: "transformedVerses (rejecting_store e q) = Inl e"
  by (simp add: transformedVerses_def rejecting_store_def)

lemma transformedVerses_pg [simp]:
  "transformedVerses (pg_store ilike oor tbl q) =
     (if list_all in_range q then Inr (map transform (exec_query ilike tbl q)) else Inl oor)"
  by (simp add: transformedVerses_def pg_store_def)

lemma in_range_queries [simp]:
  "list_all in_range (searchVerses_query qs)"
  "list_all in_range (handleTopicsSearch_query qs)"
  "list_all in_range (fetchChapter_query b c) \<longleftrightarrow> int4 c"
  by (simp_all add: searchVerses_query_def handleTopicsSearch_query_def fetchChapter_query_def)

lemma searchVerses_nonblank:
  assumes "trim qs \<noteq> []"
  shows "fst (searchVerses supabase s qs) =
     (case transformedVerses (supabase (searchVerses_query qs)) of
        Inr vs \<Rightarrow> s\<lparr>verses := vs, error := None, loading := False\<rparr>
      | Inl err \<Rightarrow> s\<lparr>error := Some (error_message (js ''Failed to search verses'') err),
                       loading := False\<rparr>)"
  using assms by (simp add: searchVerses_def Let_def split: sum.split)

text \<open>
  Claim C2, as amended. When the store cannot be reached during the hook's
  \<open>searchVerses\<close> on a query that is not blank, the hook puts a message in its \<open>error\<close>
  state (the fault's own message, or "Failed to search verses") and leaves the verses
  as they were, whereas an answer of the store leaves \<open>error\<close> null; so the hook's
  caller can tell "no matches" from "could not query". The search of the Topics tab,
  \<open>handleTopicsSearch\<close>, returns the empty sequence on a fault.
\<close>

theorem search_fault:
  assumes "trim qs \<noteq> []"
  shows "error (fst (searchVerses (faulty_store e) s qs)) =
           Some (error_message (js ''Failed to search verses'') e) \<and>
         error (fst (searchVerses (rejecting_store e) s qs)) =
           Some (error_message (js ''Failed to search verses'') e) \<and>
         verses (fst (searchVerses (faulty_store e) s qs)) = verses s \<and>
         verses (fst (searchVerses (rejecting_store e) s qs)) = verses s \<and>
         error (fst (searchVerses (pg_store ilike oor tbl) s qs)) = None \<and>
         fst (handleTopicsSearch (faulty_store e) qs) = [] \<and>
         fst (handleTopicsSearch (rejecting_store e) qs) = []"
  using assms by (simp add: searchVerses_nonblank handleTopicsSearch_def)

theorem search_fault_witness:
  "trim (js ''love'') \<noteq> [] \<and>
   error (fst (searchVerses (faulty_store (Error_instance (js ''Failed to fetch'')))
      \<lparr>verses = [], loading = False, error = None\<rparr> (js ''love''))) = Some (js ''Failed to fetch'') \<and>
   error (fst (searchVerses (pg_store (\<lambda>p t. False) out_of_range_error example_verses)
      \<lparr>verses = [], loading = False, error = None\<rparr> (js ''love''))) = None"
proof -
  have h: "trim (js ''love'') \<noteq> []"
    by (simp add: trim_def js_def is_js_whitespace_def)
  show ?thesis
    using h search_fault [OF h, of "Error_instance (js ''Failed to fetch'')"
        "\<lparr>verses = [], loading = False, error = None\<rparr>" "\<lambda>p t. False" out_of_range_error
        example_verses]
    by (simp add: error_message_def)
qed

text \<open>
  Claim C2 as the specification states it fails for \<open>handleTopicsSearch\<close>: with the
  store unreachable it returns the empty sequence, the very result it returns when the
  store is reached and no verse matches.
\<close>

theorem handleTopicsSearch_swallows_fault:
  "fst (handleTopicsSearch (faulty_store (Error_instance (js ''Failed to fetch''))) (js ''love'')) = [] \<and>
   fst (handleTopicsSearch (pg_store (\<lambda>p t. False) out_of_range_error example_verses) (js ''love'')) = []"
  by (simp add: handleTopicsSearch_def exec_query_def handleTopicsSearch_query_def limit_to_def)

section \<open>Fetching a chapter\<close>

lemma int_of_fun: "int_of Verse_number = verse_number" "int_of Book_chapter = book_chapter"
  by (rule ext, simp)+

lemma exec_fetchChapter_query:
  "exec_query ilike tbl (fetchChapter_query b c) =
     map api_row.truncate
       (sort_key verse_number (filter (\<lambda>r. book_name r = b \<and> book_chapter r = c) tbl))"
  by (simp add: exec_query_def fetchChapter_query_def limit_to_def int_of_fun)

lemma fetchChapter_pg:
  assumes "int4 c"
  shows "fetchChapter (pg_store ilike oor tbl) s b c =
     (s\<lparr>verses := map transform (exec_query ilike tbl (fetchChapter_query b c)),
        error := None, loading := False\<rparr>, [fetchChapter_query b c])"
  using assms by (simp add: fetchChapter_def Let_def)

lemma fetchChapter_out_of_range:
  assumes "\<not> int4 c"
  shows "fst (fetchChapter (pg_store ilike oor tbl) s b c) =
     s\<lparr>error := Some (error_message (js ''Failed to fetch chapter'') oor), loading := False\<rparr>"
  using assms by (simp add: fetchChapter_def Let_def)

lemma fetchChapter_fault:
  "fst (fetchChapter (faulty_store e) s b c) =
     s\<lparr>error := Some (error_message (js ''Failed to fetch chapter'') e), loading := False\<rparr>"
  "fst (fetchChapter (rejecting_store e) s b c) =
     s\<lparr>error := Some (error_message (js ''Failed to fetch chapter'') e), loading := False\<rparr>"
  by (simp_all add: fetchChapter_def Let_def)

text \<open>
  Claim C4, as amended. \<open>fetchChapter\<close> validates nothing: for every book name and
  every chapter number, positive or not, it sends the store exactly one query, the one
  for that book and chapter, and it reports an error exactly when that query fails.
\<close>

theorem fetchChapter_always_queries:
  "snd (fetchChapter supabase s b c) = [fetchChapter_query b c] \<and>
   error (fst (fetchChapter supabase s b c)) =
     (case transformedVerses (supabase (fetchChapter_query b c)) of
        Inl err \<Rightarrow> Some (error_message (js ''Failed to fetch chapter'') err)
      | Inr vs \<Rightarrow> None)"
  by (simp add: fetchChapter_def Let_def split: sum.split)

theorem fetchChapter_always_queries_witness:
  "snd (fetchChapter (rejecting_store Other_thrown) \<lparr>verses = [], loading = False, error = None\<rparr>
      (js ''Genesis'') (- 1)) = [fetchChapter_query (js ''Genesis'') (- 1)] \<and>
   error (fst (fetchChapter (rejecting_store Other_thrown) \<lparr>verses = [], loading = False, error = None\<rparr>
      (js ''Genesis'') (- 1))) = Some (js ''Failed to fetch chapter'')"
  using fetchChapter_always_queries [of "rejecting_store Other_thrown"
      "\<lparr>verses = [], loading = False, error = None\<rparr>" "js ''Genesis''" "- 1"]
  by (simp add: error_message_def)

text \<open>
  Claim C4 as the specification states it fails: asked for chapter 0 of Genesis,
  \<open>fetchChapter\<close> sends the query to the store and, the store holding no such verse,
  ends with no verses and no error.
\<close>

theorem fetchChapter_chapter_zero:
  "fetchChapter (pg_store (\<lambda>p t. True) out_of_range_error example_verses)
      \<lparr>verses = [], loading = False, error = None\<rparr> (js ''Genesis'') 0 =
     (\<lparr>verses = [], loading = False, error = None\<rparr>,
      [[Eq_text Book_name (js ''Genesis''), Eq_int Book_chapter 0, Order (Int_col Verse_number)]])"
  by (simp add: fetchChapter_pg int4_def exec_fetchChapter_query example_verses_def)
     (simp add: fetchChapter_query_def)

text \<open>
  Claim C6, as amended. For every book and every chapter number in the range of the
  \<open>INTEGER\<close> column for which the store holds no verses, \<open>fetchChapter\<close> ends with
  the empty sequence of verses and no error; when the store is not reached it ends
  with an error set, so the two outcomes differ. For a chapter number out of that
  range the store answers with an error, and \<open>fetchChapter\<close> ends with that error set
  and the verses it had before.
\<close>

theorem fetchChapter_empty_is_not_fault:
  assumes "list_all (\<lambda>r. \<not> (book_name r = b \<and> book_chapter r = c)) tbl"
  shows "(int4 c \<longrightarrow>
            verses (fst (fetchChapter (pg_store ilike oor tbl) s b c)) = [] \<and>
            error (fst (fetchChapter (pg_store ilike oor tbl) s b c)) = None) \<and>
         (\<not> int4 c \<longrightarrow>
            fst (fetchChapter (pg_store ilike oor tbl) s b c) =
              s\<lparr>error := Some (error_message (js ''Failed to fetch chapter'') oor),
                loading := False\<rparr>) \<and>
         error (fst (fetchChapter (faulty_store e) s b c)) \<noteq> None \<and>
         error (fst (fetchChapter (rejecting_store e) s b c)) \<noteq> None"
proof -
  have "filter (\<lambda>r. book_name r = b \<and> book_chapter r = c) tbl = []"
    using assms by (simp add: filter_empty_conv list_all_iff)
  then show ?thesis
    by (simp add: fetchChapter_pg fetchChapter_out_of_range exec_fetchChapter_query
        fetchChapter_fault)
qed

theorem fetchChapter_empty_is_not_fault_witness:
  "verses (fst (fetchChapter (pg_store (\<lambda>p t. True) out_of_range_error example_verses)
      \<lparr>verses = [john_3_16], loading = False, error = None\<rparr> (js ''Nonexistent'') 1)) = [] \<and>
   error (fst (fetchChapter (pg_store (\<lambda>p t. True) out_of_range_error example_verses)
      \<lparr>verses = [john_3_16], loading = False, error = None\<rparr> (js ''Nonexistent'') 1)) = None \<and>
   error (fst (fetchChapter (faulty_store Other_thrown)
      \<lparr>verses = [john_3_16], loading = False, error = None\<rparr> (js ''Nonexistent'') 1)) \<noteq> None"
proof -
  have h: "list_all (\<lambda>r. \<not> (book_name r = js ''Nonexistent'' \<and> book_chapter r = 1)) example_verses"
    by (simp add: example_verses_def js_def)
  have r: "int4 1"
    by (simp add: int4_def)
  show ?thesis
    using r fetchChapter_empty_is_not_fault [OF h, where ilike = "\<lambda>p t. True"
        and oor = out_of_range_error
        and s = "\<lparr>verses = [john_3_16], loading = False, error = None\<rparr>" and e = Other_thrown]
    by simp
qed

text \<open>
  Claim C6 as the specification states it fails: the store holds no verse of Genesis
  with chapter number 2147483648, yet \<open>fetchChapter\<close> ends with an error set and the
  verses it had before, not with the empty sequence.
\<close>

theorem fetchChapter_chapter_out_of_range:
  "list_all (\<lambda>r. book_name r \<noteq> js ''Genesis'' \<or> book_chapter r \<noteq> 2147483648) example_verses \<and>
   fst (fetchChapter (pg_store (\<lambda>p t. True) out_of_range_error example_verses)
      \<lparr>verses = [john_3_16], loading = False, error = None\<rparr> (js ''Genesis'') 2147483648) =
     \<lparr>verses = [john_3_16], loading = False,
      error = Some (js ''value is out of range for type integer'')\<rparr>"
  by (simp add: fetchChapter_out_of_range int4_def error_message_def out_of_range_error_def)
     (simp add: example_verses_def js_def)

lemma verse_transform_truncate: "verse (transform (api_row.truncate r)) = verse_number r"
  by (simp add: transform_def api_row.truncate_def)

lemma distinct_verse_numbers:
  assumes "unique_verses tbl"
  shows "distinct (map verse_number (filter (\<lambda>r. book_name r = b \<and> book_chapter r = c) tbl))"
proof -
  let ?xs = "filter (\<lambda>r. book_name r = b \<and> book_chapter r = c) tbl"
  have "distinct (map natural_key ?xs)"
    using assms by (simp add: unique_verses_def distinct_map_filter)
  then have d: "distinct ?xs" and i: "inj_on natural_key (set ?xs)"
    by (simp_all add: distinct_map)
  have "inj_on verse_number (set ?xs)"
  proof (rule inj_onI)
    fix x y
    assume "x \<in> set ?xs" "y \<in> set ?xs" "verse_number x = verse_number y"
    then have "natural_key x = natural_key y"
      by (simp add: natural_key_def)
    with i show "x = y"
      using \<open>x \<in> set ?xs\<close> \<open>y \<in> set ?xs\<close> by (rule inj_onD)
  qed
  with d show ?thesis
    by (simp add: distinct_map)
qed

lemma strictly_sorted_sort_key:
  fixes f :: "'a \<Rightarrow> int"
  assumes "distinct (map f xs)"
  shows "sorted_wrt (<) (map f (sort_key f xs))"
proof -
  have "distinct (map f (sort_key f xs))"
    using assms by (simp add: distinct_map)
  then show ?thesis
    by (simp add: strict_sorted_iff)
qed

text \<open>
  Claim C5. On a table that satisfies its uniqueness constraint, the verses that the
  store returns to \<open>fetchChapter\<close> for a book and chapter are in strictly ascending
  order of verse number, and they are the stored verses of that book and chapter, no
  more and no less; for every chapter number in the range of the \<open>INTEGER\<close> column
  the store returns them and they are the verses \<open>fetchChapter\<close> ends with.
\<close>

theorem fetchChapter_strictly_ascending:
  assumes "unique_verses tbl"
  shows "(transformedVerses (pg_store ilike oor tbl (fetchChapter_query b c)) = Inr vs \<longrightarrow>
            sorted_wrt (<) (map verse vs) \<and>
            set vs = (\<lambda>r. transform (api_row.truncate r)) `
               {r \<in> set tbl. book_name r = b \<and> book_chapter r = c}) \<and>
         (int4 c \<longrightarrow>
            sorted_wrt (<) (map verse (verses (fst (fetchChapter (pg_store ilike oor tbl) s b c)))) \<and>
            set (verses (fst (fetchChapter (pg_store ilike oor tbl) s b c))) =
              (\<lambda>r. transform (api_row.truncate r)) `
                {r \<in> set tbl. book_name r = b \<and> book_chapter r = c})"
proof -
  let ?xs = "filter (\<lambda>r. book_name r = b \<and> book_chapter r = c) tbl"
  let ?vs = "map transform (exec_query ilike tbl (fetchChapter_query b c))"
  have "map verse ?vs = map verse_number (sort_key verse_number ?xs)"
    by (simp add: exec_fetchChapter_query verse_transform_truncate comp_def)
  moreover have "sorted_wrt (<) (map verse_number (sort_key verse_number ?xs))"
    using assms by (intro strictly_sorted_sort_key distinct_verse_numbers)
  ultimately have sorted: "sorted_wrt (<) (map verse ?vs)"
    by simp
  have content: "set ?vs = (\<lambda>r. transform (api_row.truncate r)) `
      {r \<in> set tbl. book_name r = b \<and> book_chapter r = c}"
    by (auto simp: exec_fetchChapter_query)
  have "vs = ?vs" if "transformedVerses (pg_store ilike oor tbl (fetchChapter_query b c)) = Inr vs"
    using that by (simp split: if_splits)
  moreover have "verses (fst (fetchChapter (pg_store ilike oor tbl) s b c)) = ?vs" if "int4 c"
    using that by (simp add: fetchChapter_pg)
  ultimately show ?thesis
    using sorted content by metis
qed

theorem fetchChapter_strictly_ascending_witness:
  "unique_verses example_verses \<and>
   map verse (verses (fst (fetchChapter (pg_store (\<lambda>p t. True) out_of_range_error example_verses)
      \<lparr>verses = [], loading = False, error = None\<rparr> (js ''Genesis'') 1))) = [1, 3] \<and>
   sorted_wrt (<) (map verse (verses (fst (fetchChapter (pg_store (\<lambda>p t. True) out_of_range_error example_verses)
      \<lparr>verses = [], loading = False, error = None\<rparr> (js ''Genesis'') 1))))"
proof -
  have h: "unique_verses example_verses"
    by (simp add: example_verses_def unique_verses_def natural_key_def js_def)
  have r: "int4 1"
    by (simp add: int4_def)
  have "map verse (verses (fst (fetchChapter (pg_store (\<lambda>p t. True) out_of_range_error example_verses)
      \<lparr>verses = [], loading = False, error = None\<rparr> (js ''Genesis'') 1))) = [1, 3]"
    by (simp add: fetchChapter_pg r exec_fetchChapter_query example_verses_def
        transform_def api_row.truncate_def js_def)
  with h r fetchChapter_strictly_ascending [OF h, where ilike = "\<lambda>p t. True"
      and oor = out_of_range_error
      and s = "\<lparr>verses = [], loading = False, error = None\<rparr>" and b = "js ''Genesis''" and c = 1]
  show ?thesis by simp
qed

section \<open>The ranked search of the schema\<close>

lemma order_by_key_le:
  "order_by_key a \<le> order_by_key b \<longleftrightarrow>
     rank b < rank a \<or> (rank a = rank b \<and>
        (book_name a < book_name b \<or> (book_name a = book_name b \<and>
          (book_chapter a < book_chapter b \<or> (book_chapter a = book_chapter b \<and>
             verse_number a \<le> verse_number b)))))"
  by (auto simp: order_by_key_def less_eq_prod_def)

lemma sorted_key_ordered:
  assumes "sorted (map order_by_key rs)"
  shows "ordered_by_rank_then_name rs"
proof -
  have "sorted_wrt (\<lambda>a b. order_by_key a \<le> order_by_key b) rs"
    using assms by (simp add: sorted_map)
  then show ?thesis
    unfolding ordered_by_rank_then_name_def order_by_key_le .
qed

lemma search_verses_returns:
  assumes "0 \<le> n"
  shows "\<exists>rs. search_verses eng tbl q n = Inr rs \<and> length rs \<le> nat n \<and>
           ordered_by_rank_then_name rs"
proof -
  obtain rs xs where rs: "search_verses eng tbl q n = Inr rs"
    and xs: "rs = take (nat n) (sort_key order_by_key xs)"
    using assms by (auto simp: search_verses_def)
  have "sorted (map order_by_key rs)"
    unfolding xs take_map [symmetric] by (rule sorted_wrt_take) simp
  then have "ordered_by_rank_then_name rs"
    by (rule sorted_key_ordered)
  moreover have "length rs \<le> nat n"
    by (simp add: xs)
  ultimately show ?thesis
    using rs by blast
qed

lemma search_verses_negative:
  "n < 0 \<Longrightarrow> search_verses eng tbl q n = Inl Limit_must_not_be_negative"
  by (simp add: search_verses_def)

lemma example_search:
  "search_verses example_engine example_verses (js ''God'') 100 =
     Inr [\<lparr>book_name = js ''John'', book_chapter = 3, verse_number = 16,
            verse_text = js ''God so loved'', rank = 6\<rparr>,
          \<lparr>book_name = js ''Exodus'', book_chapter = 20, verse_number = 1,
            verse_text = js ''And God said'', rank = 5\<rparr>,
          \<lparr>book_name = js ''Genesis'', book_chapter = 1, verse_number = 3,
            verse_text = js ''And God said'', rank = 5\<rparr>]"
  by (simp add: search_verses_def example_engine_def example_verses_def order_by_key_def js_def)

text \<open>
  Claim C1, as amended. For every query string \<open>q\<close> and every result bound \<open>n \<ge> 0\<close>
  (100 when none is given), \<open>search_verses(q, n)\<close> returns at most \<open>n\<close> results,
  ordered by descending rank, with ties among equal ranks broken by book name in the
  order of text (not by the canonical order of the books), then chapter, then verse
  number, all ascending.
\<close>

theorem search_verses_bounded_and_ordered:
  assumes "0 \<le> n"
  shows "(\<exists>rs. search_verses eng tbl q n = Inr rs \<and> length rs \<le> nat n \<and>
            ordered_by_rank_then_name rs) \<and>
         (\<exists>rs. search_verses_default eng tbl q = Inr rs \<and> length rs \<le> 100 \<and>
            ordered_by_rank_then_name rs)"
  using assms search_verses_returns [of n eng tbl q] search_verses_returns [of 100 eng tbl q]
  by (simp add: search_verses_default_def)

theorem search_verses_bounded_and_ordered_witness:
  "search_verses example_engine example_verses (js ''God'') 2 =
     Inr [\<lparr>book_name = js ''John'', book_chapter = 3, verse_number = 16,
            verse_text = js ''God so loved'', rank = 6\<rparr>,
          \<lparr>book_name = js ''Exodus'', book_chapter = 20, verse_number = 1,
            verse_text = js ''And God said'', rank = 5\<rparr>] \<and>
   ordered_by_rank_then_name
         [\<lparr>book_name = js ''John'', book_chapter = 3, verse_number = 16,
            verse_text = js ''God so loved'', rank = 6\<rparr>,
          \<lparr>book_name = js ''Exodus'', book_chapter = 20, verse_number = 1,
            verse_text = js ''And God said'', rank = 5\<rparr>]"
proof -
  have h: "(0::int) \<le> 2" by simp
  have e: "search_verses example_engine example_verses (js ''God'') 2 =
     Inr [\<lparr>book_name = js ''John'', book_chapter = 3, verse_number = 16,
            verse_text = js ''God so loved'', rank = 6\<rparr>,
          \<lparr>book_name = js ''Exodus'', book_chapter = 20, verse_number = 1,
            verse_text = js ''And God said'', rank = 5\<rparr>]"
    by (simp add: search_verses_def example_engine_def example_verses_def order_by_key_def js_def)
  from search_verses_bounded_and_ordered [OF h, of example_engine example_verses "js ''God''"]
  obtain rs where "search_verses example_engine example_verses (js ''God'') 2 = Inr rs"
    and "ordered_by_rank_then_name rs"
    by blast
  with e show ?thesis by simp
qed

text \<open>
  Claim C1 as the specification states it fails. Genesis 1:3 and Exodus 20:1 have the
  same text here, hence the same rank under any engine; Genesis is book 1 and Exodus
  book 2 of \<open>bible_books\<close>, yet the search returns Exodus first, as \<open>ORDER BY ...
  v.book_name\<close> says.
\<close>

theorem search_verses_not_in_canonical_order:
  "search_verses example_engine example_verses (js ''God'') 100 =
     Inr [\<lparr>book_name = js ''John'', book_chapter = 3, verse_number = 16,
            verse_text = js ''God so loved'', rank = 6\<rparr>,
          \<lparr>book_name = js ''Exodus'', book_chapter = 20, verse_number = 1,
            verse_text = js ''And God said'', rank = 5\<rparr>,
          \<lparr>book_name = js ''Genesis'', book_chapter = 1, verse_number = 3,
            verse_text = js ''And God said'', rank = 5\<rparr>] \<and>
   \<not> ordered_by_rank_then_canonical example_books
        [\<lparr>book_name = js ''John'', book_chapter = 3, verse_number = 16,
            verse_text = js ''God so loved'', rank = 6\<rparr>,
          \<lparr>book_name = js ''Exodus'', book_chapter = 20, verse_number = 1,
            verse_text = js ''And God said'', rank = 5\<rparr>,
          \<lparr>book_name = js ''Genesis'', book_chapter = 1, verse_number = 3,
            verse_text = js ''And God said'', rank = 5\<rparr>]"
proof -
  have "seq_number_of example_books (js ''Genesis'') = 1"
    and "seq_number_of example_books (js ''Exodus'') = 2"
    by (simp_all add: seq_number_of_def example_books_def js_def)
  then show ?thesis
    by (simp add: example_search ordered_by_rank_then_canonical_def)
qed

section \<open>The index under the trigger\<close>

lemma index_current_exec:
  assumes "index_current eng tbl" and "exec_statement eng tbl st = Inr tbl'"
  shows "index_current eng tbl'"
proof (cases st)
  case (Insert new)
  with assms show ?thesis
    by (auto simp: index_current_def update_verse_text_tsv_def Let_def split: if_splits)
next
  case (Update cond upd)
  with assms show ?thesis
    by (auto simp: index_current_def update_verse_text_tsv_def Let_def list_all_iff
        split: if_splits)
next
  case (Delete cond)
  with assms show ?thesis
    by (auto simp: index_current_def list_all_iff)
qed

lemma unique_verses_exec:
  assumes "unique_verses tbl" and "exec_statement eng tbl st = Inr tbl'"
  shows "unique_verses tbl'"
proof (cases st)
  case (Delete cond)
  with assms show ?thesis
    by (auto simp: unique_verses_def distinct_map_filter)
qed (use assms in \<open>auto simp: Let_def split: if_splits\<close>)

lemma run_statements_invariant:
  assumes "\<And>tbl st tbl'. P tbl \<Longrightarrow> exec_statement eng tbl st = Inr tbl' \<Longrightarrow> P tbl'"
  shows "P tbl \<Longrightarrow> P (run_statements eng tbl sts)"
proof (induction sts arbitrary: tbl)
  case Nil
  then show ?case by simp
next
  case (Cons st sts)
  show ?case
  proof (cases "exec_statement eng tbl st")
    case (Inl err)
    with Cons show ?thesis by simp
  next
    case (Inr tbl')
    with Cons.prems have "P tbl'"
      by (rule assms)
    with Inr Cons.IH show ?thesis by simp
  qed
qed

lemma unique_verses_run: "unique_verses (run_statements eng [] sts)"
proof (rule run_statements_invariant [where P = unique_verses])
  show "unique_verses []"
    by (simp add: unique_verses_def)
qed (erule unique_verses_exec, assumption)

lemma stored_row_is_reindexed:
  "exec_statement eng tbl (Insert new) = Inr tbl' \<Longrightarrow>
     tbl' = tbl @ [new\<lparr>verse_text_tsv := to_tsvector eng (verse_text new)\<rparr>]"
  by (auto simp: Let_def update_verse_text_tsv_def split: if_splits)

lemma example_run: "run_statements example_engine [] example_statements = example_verses"
  by (simp add: example_verses_def example_statements_def example_engine_def
      update_verse_text_tsv_def unique_verses_def natural_key_def js_def)

text \<open>
  Claim C7. After any sequence of inserts, updates and deletes on the table the schema
  creates, the index entry of every stored verse is the result of applying
  \<open>to_tsvector\<close> to the verse's current text: the trigger recomputes it within the
  write, whatever the statement supplied for it.
\<close>

theorem index_always_current: "index_current eng (run_statements eng [] sts)"
proof (rule run_statements_invariant [where P = "index_current eng"])
  show "index_current eng []"
    by (simp add: index_current_def)
qed (erule index_current_exec, assumption)

theorem index_always_current_witness:
  "index_current example_engine (run_statements example_engine [] example_statements) \<and>
   map verse_text_tsv (run_statements example_engine [] example_statements) =
     [js ''And God said'', js ''And God said'', js ''God so loved'', js ''In the beginning'']"
  using index_always_current [of example_engine example_statements]
  by (simp add: example_run) (simp add: example_verses_def)

section \<open>Favorites\<close>

lemma findIndex_ge: "- 1 \<le> findIndex P xs"
  by (induction xs) (auto simp: Let_def)

text \<open>
  What the handler does to the list when the key is in the set: the first entry that
  matches goes, if there is one.
\<close>

lemma findIndex_splice1:
  "(if findIndex P xs > - 1 then splice1 (findIndex P xs) xs else xs) =
     takeWhile (\<lambda>x. \<not> P x) xs @ tl (dropWhile (\<lambda>x. \<not> P x) xs)"
proof (induction xs)
  case Nil
  then show ?case by (simp add: splice1_def)
next
  case (Cons x xs)
  show ?case
  proof (cases "P x")
    case True
    then show ?thesis by (simp add: splice1_def)
  next
    case False
    show ?thesis
    proof (cases "findIndex P xs = - 1")
      case True
      with False Cons show ?thesis by (simp add: Let_def)
    next
      case neq: False
      with findIndex_ge [of P xs] have pos: "0 \<le> findIndex P xs" by simp
      then have "nat (findIndex P xs + 1) = Suc (nat (findIndex P xs))" by simp
      with False neq pos Cons show ?thesis
        by (simp add: Let_def splice1_def)
    qed
  qed
qed

lemma remove_first_set:
  assumes "distinct (map f xs)"
  shows "f ` set (takeWhile (\<lambda>x. f x \<noteq> k) xs @ tl (dropWhile (\<lambda>x. f x \<noteq> k) xs)) =
           f ` set xs - {k}"
  using assms
proof (induction xs)
  case Nil
  then show ?case by simp
next
  case (Cons x xs)
  show ?case
  proof (cases "f x = k")
    case True
    with Cons.prems have "k \<notin> f ` set xs" by auto
    with True show ?thesis by simp
  next
    case False
    with Cons show ?thesis by auto
  qed
qed

lemma remove_first_distinct:
  assumes "distinct (map f xs)"
  shows "distinct (map f (takeWhile (\<lambda>x. f x \<noteq> k) xs @ tl (dropWhile (\<lambda>x. f x \<noteq> k) xs)))"
  using assms
proof (induction xs)
  case Nil
  then show ?case by simp
next
  case (Cons x xs)
  show ?case
  proof (cases "f x = k")
    case True
    with Cons.prems show ?thesis by simp
  next
    case False
    have "f x \<notin> f ` set (takeWhile (\<lambda>x. f x \<noteq> k) xs @ tl (dropWhile (\<lambda>x. f x \<noteq> k) xs))"
      using Cons.prems remove_first_set [of f xs k] by auto
    with False Cons show ?thesis by (simp add: image_Un)
  qed
qed

lemma favorites_toggle:
  "favorites (handleToggleFavorite s v) =
     (if has (favorites s) (verse_key v) then delete (favorites s) (verse_key v)
      else add (favorites s) (verse_key v))"
  by (simp add: handleToggleFavorite_def Let_def)

lemma favoriteVerses_toggle:
  "favoriteVerses (handleToggleFavorite s v) =
     (if has (favorites s) (verse_key v)
      then takeWhile (\<lambda>w. verse_key w \<noteq> verse_key v) (favoriteVerses s) @
           tl (dropWhile (\<lambda>w. verse_key w \<noteq> verse_key v) (favoriteVerses s))
      else favoriteVerses s @ [v])"
  using findIndex_splice1 [of "\<lambda>w. verse_key w = verse_key v" "favoriteVerses s"]
  by (simp add: handleToggleFavorite_def Let_def)

lemma favorites_effect_favorites [simp]: "favorites (favorites_effect vs s) = favorites s"
  by (simp add: favorites_effect_def)

lemma toggle_consistent:
  assumes "favorites_consistent s"
  shows "favorites_consistent (handleToggleFavorite s v)"
proof (cases "has (favorites s) (verse_key v)")
  case True
  with assms remove_first_set [of verse_key "favoriteVerses s" "verse_key v"]
    remove_first_distinct [of verse_key "favoriteVerses s" "verse_key v"] show ?thesis
    by (simp add: favorites_consistent_def favorites_toggle favoriteVerses_toggle delete_def
        distinct_removeAll image_Un)
next
  case False
  with assms show ?thesis
    by (auto simp: favorites_consistent_def favorites_toggle favoriteVerses_toggle add_def has_def)
qed

lemma map_filter_keys:
  assumes "\<forall>k\<in>set ks. \<exists>w. f k = Some w \<and> g w = k"
  shows "map g (List.map_filter f ks) = ks"
  using assms by (induction ks) (auto simp: map_filter_simps)

lemma findVerseByKey_found:
  assumes "k \<in> set (map verse_key (favoriteVerses s))"
  shows "\<exists>w. findVerseByKey vs s k = Some w \<and> verse_key w = k"
proof (cases "find (\<lambda>v. verse_key v = k) vs")
  case None
  from assms obtain w where "find (\<lambda>v. verse_key v = k) (favoriteVerses s) = Some w"
    by (cases "find (\<lambda>v. verse_key v = k) (favoriteVerses s)") (auto simp: find_None_iff)
  moreover from this have "verse_key w = k"
    by (auto simp: find_Some_iff)
  ultimately show ?thesis
    using None by (simp add: findVerseByKey_def)
next
  case (Some w)
  then have "verse_key w = k"
    by (auto simp: find_Some_iff)
  with Some show ?thesis
    by (simp add: findVerseByKey_def)
qed

lemma effect_keys:
  assumes "favorites_consistent s"
  shows "map verse_key (favoriteVerses (favorites_effect vs s)) = favorites s"
proof -
  have "\<forall>k\<in>set (favorites s). \<exists>w. findVerseByKey vs s k = Some w \<and> verse_key w = k"
    using assms findVerseByKey_found unfolding favorites_consistent_def by blast
  then show ?thesis
    by (simp add: favorites_effect_def map_filter_keys)
qed

lemma effect_consistent:
  assumes "favorites_consistent s"
  shows "favorites_consistent (favorites_effect vs s)"
  using effect_keys [OF assms, of vs] assms by (simp add: favorites_consistent_def)

lemma distinct_count:
  assumes "distinct (map f xs)"
  shows "length (filter (\<lambda>w. f w = k) xs) = (if k \<in> f ` set xs then 1 else 0)"
  using assms by (induction xs) auto

lemma consistent_count:
  assumes "favorites_consistent s"
  shows "length (filter (\<lambda>w. verse_key w = k) (favoriteVerses s)) =
           (if has (favorites s) k then 1 else 0)"
  using assms distinct_count [of verse_key "favoriteVerses s" k]
  by (simp add: favorites_consistent_def has_def)

lemma toggle_twice_has:
  "has (favorites (handleToggleFavorite (handleToggleFavorite s v) v)) k = has (favorites s) k"
  by (auto simp: favorites_toggle has_def add_def delete_def)

lemma toggle_effect_twice_has:
  "has (favorites (favorites_effect vs' (handleToggleFavorite
      (favorites_effect vs (handleToggleFavorite s v)) v))) k = has (favorites s) k"
  by (auto simp: favorites_toggle has_def add_def delete_def)

lemma consistent_keys:
  "favorites_consistent s \<Longrightarrow> k \<in> set (map verse_key (favoriteVerses s)) \<longleftrightarrow> has (favorites s) k"
  by (simp add: favorites_consistent_def has_def)

lemma HomePage_initial_consistent: "favorites_consistent HomePage_initial"
  by (simp add: favorites_consistent_def HomePage_initial_def)

lemma example_keys:
  "verse_key genesis_1_3 = js ''Genesis_1_3''" "verse_key john_3_16 = js ''John_3_16''"
  by (simp_all add: verse_key_def genesis_1_3_def john_3_16_def toString_def js_def)

lemma example_favorites_consistent: "favorites_consistent example_favorites"
  by (simp add: favorites_consistent_def example_favorites_def example_keys)

lemma handleToggleFavorite_from_self:
  "handleToggleFavorite_from s s v = handleToggleFavorite s v"
  by (simp add: handleToggleFavorite_from_def handleToggleFavorite_def Let_def)

lemma handleToggleFavorite_from_again:
  "handleToggleFavorite_from r (handleToggleFavorite_from r cur v) v =
     handleToggleFavorite_from r cur v"
  by (simp add: handleToggleFavorite_from_def)

lemma toggle_flips:
  "has (favorites (handleToggleFavorite s v)) (verse_key v) \<longleftrightarrow> \<not> has (favorites s) (verse_key v)"
  by (auto simp: favorites_toggle has_def add_def delete_def)

text \<open>
  Claim C8, as amended. Two calls of \<open>handleToggleFavorite\<close> on the same verse with a
  render between them, the second call being made by the handler of the state the
  first call left, restore the membership of every key in the \<open>favorites\<close> set, from
  any state and also with the effect on \<open>favorites\<close> running after each call; from a
  state whose two representations agree they restore the keys present in
  \<open>favoriteVerses\<close> as well. Two calls of the handler of one and the same render
  leave what one call leaves: the membership of the verse is flipped.
\<close>

theorem toggleFavorite_twice:
  "(let s1 = handleToggleFavorite_from s s v;
        s2 = handleToggleFavorite_from s1 s1 v;
        e1 = favorites_effect vs s1;
        e2 = favorites_effect vs' (handleToggleFavorite_from e1 e1 v)
    in has (favorites s2) k = has (favorites s) k \<and>
       has (favorites e2) k = has (favorites s) k \<and>
       (favorites_consistent s \<longrightarrow>
          (k \<in> set (map verse_key (favoriteVerses s2))
             \<longleftrightarrow> k \<in> set (map verse_key (favoriteVerses s))) \<and>
          (k \<in> set (map verse_key (favoriteVerses e2))
             \<longleftrightarrow> k \<in> set (map verse_key (favoriteVerses s)))) \<and>
       handleToggleFavorite_from s s1 v = s1 \<and>
       (has (favorites (handleToggleFavorite_from s s1 v)) (verse_key v)
          \<longleftrightarrow> \<not> has (favorites s) (verse_key v)))"
proof -
  let ?T = "handleToggleFavorite (handleToggleFavorite s v) v"
  let ?E = "favorites_effect vs' (handleToggleFavorite
      (favorites_effect vs (handleToggleFavorite s v)) v)"
  have a: "has (favorites ?T) k = has (favorites s) k"
    by (rule toggle_twice_has)
  have b: "has (favorites ?E) k = has (favorites s) k"
    by (rule toggle_effect_twice_has)
  have c: "k \<in> set (map verse_key (favoriteVerses ?T)) \<longleftrightarrow>
             k \<in> set (map verse_key (favoriteVerses s))" if "favorites_consistent s"
  proof -
    from that have "favorites_consistent ?T"
      by (simp add: toggle_consistent)
    from consistent_keys [OF this, of k] consistent_keys [OF that, of k] a show ?thesis
      by blast
  qed
  have d: "k \<in> set (map verse_key (favoriteVerses ?E)) \<longleftrightarrow>
             k \<in> set (map verse_key (favoriteVerses s))" if "favorites_consistent s"
  proof -
    from that have "favorites_consistent ?E"
      by (simp add: toggle_consistent effect_consistent)
    from consistent_keys [OF this, of k] consistent_keys [OF that, of k] b show ?thesis
      by blast
  qed
  have f: "handleToggleFavorite_from s (handleToggleFavorite s v) v = handleToggleFavorite s v"
    using handleToggleFavorite_from_again [of s s v] by (simp add: handleToggleFavorite_from_self)
  have g: "has (favorites (handleToggleFavorite s v)) (verse_key v) \<longleftrightarrow>
             \<not> has (favorites s) (verse_key v)"
    by (rule toggle_flips)
  from a b c d f g show ?thesis
    unfolding Let_def handleToggleFavorite_from_self by metis
qed

theorem toggleFavorite_twice_witness:
  "has (favorites (handleToggleFavorite_from
      (handleToggleFavorite_from example_favorites example_favorites john_3_16)
      (handleToggleFavorite_from example_favorites example_favorites john_3_16) john_3_16))
      (js ''John_3_16'') = False \<and>
   has (favorites (handleToggleFavorite_from
      (handleToggleFavorite_from example_favorites example_favorites genesis_1_3)
      (handleToggleFavorite_from example_favorites example_favorites genesis_1_3) genesis_1_3))
      (js ''Genesis_1_3'') = True \<and>
   js ''Genesis_1_3'' \<in> set (map verse_key (favoriteVerses (handleToggleFavorite_from
      (handleToggleFavorite_from example_favorites example_favorites genesis_1_3)
      (handleToggleFavorite_from example_favorites example_favorites genesis_1_3) genesis_1_3)))"
  using example_favorites_consistent
    toggleFavorite_twice [of example_favorites john_3_16 vs vs' "js ''John_3_16''"]
    toggleFavorite_twice [of example_favorites genesis_1_3 vs vs' "js ''Genesis_1_3''"]
  by (simp add: Let_def has_def example_keys example_favorites_def js_def)

text \<open>
  Claim C8 as the specification states it fails when both calls are made by the
  handler of one render: John 3:16 is no favorite when the page mounts, and after two
  such calls on it it is one.
\<close>

theorem toggleFavorite_twice_in_one_render:
  "\<not> has (favorites HomePage_initial) (verse_key john_3_16) \<and>
   has (favorites (handleToggleFavorite_from HomePage_initial
      (handleToggleFavorite_from HomePage_initial HomePage_initial john_3_16) john_3_16))
      (verse_key john_3_16)"
  by (simp add: handleToggleFavorite_from_def handleToggleFavorite_def HomePage_initial_def
      has_def add_def Let_def)

text \<open>
  Claim C10. From a state in which the keys of \<open>favoriteVerses\<close> are those of the
  \<open>favorites\<close> set, each once, \<open>handleToggleFavorite\<close> leads to such a state again, and
  so does the effect that then rebuilds \<open>favoriteVerses\<close>: the list has exactly one
  entry for each key in the set and none for any other key. (Entries are counted by
  key, so nothing need be assumed about the verses.)
\<close>

theorem handleToggleFavorite_consistent:
  assumes "favorites_consistent s"
  shows "favorites_consistent (handleToggleFavorite s v) \<and>
         favorites_consistent (favorites_effect vs (handleToggleFavorite s v)) \<and>
         length (filter (\<lambda>w. verse_key w = k) (favoriteVerses (handleToggleFavorite s v))) =
           (if has (favorites (handleToggleFavorite s v)) k then 1 else 0) \<and>
         length (filter (\<lambda>w. verse_key w = k)
             (favoriteVerses (favorites_effect vs (handleToggleFavorite s v)))) =
           (if has (favorites (favorites_effect vs (handleToggleFavorite s v))) k then 1 else 0)"
proof -
  have t: "favorites_consistent (handleToggleFavorite s v)"
    using assms by (rule toggle_consistent)
  then have e: "favorites_consistent (favorites_effect vs (handleToggleFavorite s v))"
    by (rule effect_consistent)
  from t e consistent_count [OF t, of k] consistent_count [OF e, of k] show ?thesis
    by simp
qed

theorem handleToggleFavorite_consistent_witness:
  "favorites_consistent HomePage_initial \<and>
   handleToggleFavorite (handleToggleFavorite HomePage_initial genesis_1_3) john_3_16 =
     \<lparr>favorites = [js ''Genesis_1_3'', js ''John_3_16''],
      favoriteVerses = [genesis_1_3, john_3_16], topics = []\<rparr> \<and>
   favorites_consistent (handleToggleFavorite (handleToggleFavorite HomePage_initial genesis_1_3) john_3_16)"
proof -
  have h: "favorites_consistent HomePage_initial"
    by (rule HomePage_initial_consistent)
  have h': "favorites_consistent (handleToggleFavorite HomePage_initial genesis_1_3)"
    using handleToggleFavorite_consistent [OF h] by simp
  have "handleToggleFavorite (handleToggleFavorite HomePage_initial genesis_1_3) john_3_16 =
     \<lparr>favorites = [js ''Genesis_1_3'', js ''John_3_16''],
      favoriteVerses = [genesis_1_3, john_3_16], topics = []\<rparr>"
    by (simp add: handleToggleFavorite_def HomePage_initial_def has_def add_def example_keys js_def)
  with h handleToggleFavorite_consistent [OF h', of john_3_16] show ?thesis
    by simp
qed

section \<open>Topics\<close>

lemma same_verse_key: "same_verse v w \<longleftrightarrow> composite_key w = composite_key v"
  by (auto simp: same_verse_def composite_key_def)

lemma append_no_duplicate:
  assumes "distinct (map composite_key ws)" and "\<not> list_ex (same_verse v) ws"
  shows "distinct (map composite_key (ws @ [v]))"
proof -
  have "composite_key v \<notin> set (map composite_key ws)"
  proof
    assume "composite_key v \<in> set (map composite_key ws)"
    then obtain w where "w \<in> set ws" and "composite_key w = composite_key v"
      by auto
    then have "list_ex (same_verse v) ws"
      by (auto simp: list_ex_iff same_verse_key)
    with assms(2) show False
      by simp
  qed
  with assms(1) show ?thesis
    by simp
qed

lemma add_no_duplicates:
  assumes "list_all no_duplicate_verses (topics s)"
  shows "list_all no_duplicate_verses (topics (handleAddVerseToTopic s topicId v))"
proof -
  define f :: "Topic \<Rightarrow> Topic" where
    "f = (\<lambda>topic. if id topic = topicId then
             (let verseExists = list_ex (same_verse v) (verses' topic)
              in if \<not> verseExists then topic\<lparr>verses' := verses' topic @ [v]\<rparr> else topic)
           else topic)"
  have "no_duplicate_verses (f topic)" if "no_duplicate_verses topic" for topic
    using that append_no_duplicate [of "verses' topic" v]
    by (simp add: no_duplicate_verses_def f_def)
  moreover have "topics (handleAddVerseToTopic s topicId v) = map f (topics s)"
    by (simp add: handleAddVerseToTopic_def f_def)
  ultimately show ?thesis
    using assms by (simp add: list_all_iff)
qed

lemma remove_no_duplicates:
  assumes "list_all no_duplicate_verses (topics s)"
  shows "list_all no_duplicate_verses (topics (handleRemoveVerseFromTopic s topicId v))"
  using assms
  by (auto simp: handleRemoveVerseFromTopic_def list_all_iff no_duplicate_verses_def
      distinct_map_filter)

lemma delete_no_duplicates:
  assumes "list_all no_duplicate_verses (topics s)"
  shows "list_all no_duplicate_verses (topics (handleDeleteTopic s topicId))"
  using assms by (auto simp: handleDeleteTopic_def list_all_iff)

lemma create_no_duplicates:
  assumes "list_all no_duplicate_verses (topics s)" and "no_duplicate_verses topicData"
  shows "list_all no_duplicate_verses (topics (handleCreateTopic now s topicData))"
  using assms
  by (simp add: handleCreateTopic_def no_duplicate_verses_def topic_data.extend_def)

lemma add_present:
  assumes "i < length (topics s)" and "list_ex (same_verse v) (verses' (topics s ! i))"
  shows "topics (handleAddVerseToTopic s topicId v) ! i = topics s ! i"
  using assms by (simp add: handleAddVerseToTopic_def)

lemma remove_absent:
  assumes "i < length (topics s)" and "\<not> list_ex (same_verse v) (verses' (topics s ! i))"
  shows "topics (handleRemoveVerseFromTopic s topicId v) ! i = topics s ! i"
proof -
  have "filter (\<lambda>w. \<not> same_verse v w) (verses' (topics s ! i)) = verses' (topics s ! i)"
    using assms(2) by (simp add: list_ex_iff filter_id_conv)
  with assms(1) show ?thesis
    by (simp add: handleRemoveVerseFromTopic_def)
qed

text \<open>
  Claim C9, as amended. Adding a verse to a topic that already has a verse of the same
  book, chapter and verse number leaves the topic as it is, and so does removing a
  verse from a topic that has none of that key; neither is an error. Hence adding and
  removing (and deleting a topic) never bring about a topic with two verses of the same
  key, and a topic created from verses without a repeated key never has one. (A topic
  is created with whatever verses it is given.)
\<close>

theorem topic_add_remove:
  "(i < length (topics s) \<and> list_ex (same_verse v) (verses' (topics s ! i)) \<longrightarrow>
      topics (handleAddVerseToTopic s topicId v) ! i = topics s ! i) \<and>
   (i < length (topics s) \<and> \<not> list_ex (same_verse v) (verses' (topics s ! i)) \<longrightarrow>
      topics (handleRemoveVerseFromTopic s topicId v) ! i = topics s ! i) \<and>
   (list_all no_duplicate_verses (topics s) \<longrightarrow>
      list_all no_duplicate_verses (topics (handleAddVerseToTopic s topicId v)) \<and>
      list_all no_duplicate_verses (topics (handleRemoveVerseFromTopic s topicId v)) \<and>
      list_all no_duplicate_verses (topics (handleDeleteTopic s topicId)) \<and>
      (no_duplicate_verses topicData \<longrightarrow>
         list_all no_duplicate_verses (topics (handleCreateTopic now s topicData))))"
  by (simp add: add_present remove_absent add_no_duplicates remove_no_duplicates
      delete_no_duplicates create_no_duplicates)

lemma example_topics_eq:
  "example_topics =
     \<lparr>favorites = [], favoriteVerses = [],
      topics = [\<lparr>title = js ''Love'', description = js ''Verses on love'',
                 verses' = [john_3_16], id = js ''1700000000000'',
                 createdAt = 1700000000000\<rparr>]\<rparr>"
  by (simp add: example_topics_def handleCreateTopic_def HomePage_initial_def
      topic_data.extend_def Topic.fields_def toString_def js_def)

theorem topic_add_remove_witness:
  "topics (handleAddVerseToTopic example_topics (js ''1700000000000'')
      (john_3_16\<lparr>text := js ''For God so loved the world''\<rparr>)) ! 0 = topics example_topics ! 0 \<and>
   topics (handleRemoveVerseFromTopic example_topics (js ''1700000000000'') genesis_1_3) ! 0 =
     topics example_topics ! 0 \<and>
   map verses' (topics (handleAddVerseToTopic example_topics (js ''1700000000000'') genesis_1_3)) =
     [[john_3_16, genesis_1_3]] \<and>
   list_all no_duplicate_verses
     (topics (handleAddVerseToTopic example_topics (js ''1700000000000'') genesis_1_3))"
proof -
  have len: "0 < length (topics example_topics)"
    by (simp add: example_topics_eq)
  have present: "list_ex (same_verse (john_3_16\<lparr>text := js ''For God so loved the world''\<rparr>))
      (verses' (topics example_topics ! 0))"
    by (simp add: example_topics_eq same_verse_def john_3_16_def)
  have absent: "\<not> list_ex (same_verse genesis_1_3) (verses' (topics example_topics ! 0))"
    by (simp add: example_topics_eq same_verse_def john_3_16_def genesis_1_3_def js_def)
  have nodup: "list_all no_duplicate_verses (topics example_topics)"
    by (simp add: example_topics_eq no_duplicate_verses_def)
  have added: "map verses' (topics (handleAddVerseToTopic example_topics (js ''1700000000000'')
      genesis_1_3)) = [[john_3_16, genesis_1_3]]"
    using absent by (simp add: handleAddVerseToTopic_def example_topics_eq)
  from len present nodup added
    topic_add_remove [of 0 example_topics "john_3_16\<lparr>text := js ''For God so loved the world''\<rparr>"
      "js ''1700000000000''"]
    topic_add_remove [of 0 example_topics genesis_1_3 "js ''1700000000000''"] absent
  show ?thesis
    by simp
qed

text \<open>
  Claim C9 as the specification states it fails in its last part: a topic created
  from data that holds a verse twice holds two verses of the same key.
\<close>

theorem created_topic_repeats_verse:
  "\<not> list_all no_duplicate_verses
       (topics (handleCreateTopic 1700000000000 HomePage_initial
          \<lparr>title = js ''Love'', description = js ''Verses on love'',
           verses' = [john_3_16, john_3_16]\<rparr>))"
  by (simp add: handleCreateTopic_def HomePage_initial_def no_duplicate_verses_def
      topic_data.extend_def)

end
